theory Spec2Isabelle
  imports Main
begin

section \<open>Outcomes of a call\<close>

text \<open>
  The containers of \<^verbatim>\<open>pkg/utils/container\<close> are modelled as they run on one
  goroutine. A call either returns, panics (the Go runtime or package reflect
  raises), or blocks for ever on the container's own mutex.
\<close>

datatype panic =
    NilDereference
  | ZeroValueType
  | NonInterfaceImplements
  | NilTypeImplements
  | NilFuncCall

datatype 'a outcome = Returns 'a | Panics panic | Blocks

datatype error =
    AlreadyExists string
  | InjectFailed string error

section \<open>Types, as package reflect shows them\<close>

datatype Kind = KInvalid | KStruct | KPtr | KInterface | KOther

text \<open>
  A type descriptor. \<open>NamedT\<close> is any named type that is neither a struct, a
  pointer nor an interface (int, string, a func type, ...), with its method
  set. \<open>StructT\<close> carries its name, its fields in declaration order, the
  methods with a value receiver and those with a pointer receiver. A method
  is identified by a string (name and signature). A field's \<open>fld_Tag\<close> is its
  struct tag in the conventional \<^verbatim>\<open>key:"value"\<close> form, as key/value pairs.
\<close>

datatype gotype =
    NamedT string "string list"
  | StructT string "sfield list" "string list" "string list"
  | PtrT gotype
  | InterfaceT string "string list"
and sfield =
    SField (fld_Name: string) (fld_Type: gotype) (fld_Tag: "(string \<times> string) list")

fun Kind_of :: "gotype \<Rightarrow> Kind" where
  "Kind_of (NamedT n ms) = KOther"
| "Kind_of (StructT n fs vms pms) = KStruct"
| "Kind_of (PtrT t) = KPtr"
| "Kind_of (InterfaceT n ms) = KInterface"

fun Type_String :: "gotype \<Rightarrow> string" where
  "Type_String (NamedT n ms) = n"
| "Type_String (StructT n fs vms pms) = n"
| "Type_String (PtrT t) = CHR ''*'' # Type_String t"
| "Type_String (InterfaceT n ms) = n"

fun fields_of :: "gotype \<Rightarrow> sfield list" where
  "fields_of (StructT n fs vms pms) = fs"
| "fields_of t = []"

text \<open>The method set of a type: a pointer to a named type has the methods of both receivers.\<close>

fun method_set :: "gotype \<Rightarrow> string list" where
  "method_set (NamedT n ms) = ms"
| "method_set (StructT n fs vms pms) = vms"
| "method_set (InterfaceT n ms) = ms"
| "method_set (PtrT (StructT n fs vms pms)) = vms @ pms"
| "method_set (PtrT (NamedT n ms)) = ms"
| "method_set (PtrT t) = []"

text \<open>
  \<^verbatim>\<open>t.Implements(u)\<close> on a \<^verbatim>\<open>reflect.Type\<close> interface value: a nil receiver
  is a nil dereference; reflect panics on a nil argument and on an argument
  that is not an interface type.
\<close>

definition Implements :: "gotype option \<Rightarrow> gotype option \<Rightarrow> bool outcome" where
  "Implements t u =
     (case t of
        None \<Rightarrow> Panics NilDereference
      | Some T \<Rightarrow>
          (case u of
             None \<Rightarrow> Panics NilTypeImplements
           | Some U \<Rightarrow>
               if Kind_of U \<noteq> KInterface then Panics NonInterfaceImplements
               else Returns (set (method_set U) \<subseteq> set (method_set T))))"

text \<open>
  \<^verbatim>\<open>t.AssignableTo(u)\<close> for non-nil \<open>t\<close> and \<open>u\<close>: identical types, or \<open>u\<close> is
  an interface that \<open>t\<close> implements.
\<close>

definition AssignableTo :: "gotype \<Rightarrow> gotype \<Rightarrow> bool" where
  "AssignableTo t u =
     (t = u \<or> (Kind_of u = KInterface \<and> set (method_set u) \<subseteq> set (method_set t)))"

definition Tag_Get :: "(string \<times> string) list \<Rightarrow> string \<Rightarrow> string" where
  "Tag_Get tag key = (case map_of tag key of None \<Rightarrow> [] | Some v \<Rightarrow> v)"

text \<open>A field is exported when its name starts with an upper-case letter.\<close>

definition IsExported :: "string \<Rightarrow> bool" where
  "IsExported n =
     (case n of [] \<Rightarrow> False | c # cs \<Rightarrow> c \<in> set ''ABCDEFGHIJKLMNOPQRSTUVWXYZ'')"

section \<open>Values and the store\<close>

text \<open>
  What an \<^verbatim>\<open>interface{}\<close> holds: nothing (\<open>VNil\<close>), a value of a named
  non-struct type (the payload is a number), a struct value with its field
  values, a non-nil pointer (the pointee's type and its address), or a typed
  nil pointer.
\<close>

datatype goval =
    VNil
  | VNamed gotype nat
  | VStruct gotype "goval list"
  | VPtr gotype nat
  | VNilPtr gotype

fun TypeOf :: "goval \<Rightarrow> gotype option" where
  "TypeOf VNil = None"
| "TypeOf (VNamed t x) = Some t"
| "TypeOf (VStruct t vs) = Some t"
| "TypeOf (VPtr t a) = Some (PtrT t)"
| "TypeOf (VNilPtr t) = Some (PtrT t)"

text \<open>\<^verbatim>\<open>fmt.Sprintf("%T", v)\<close>\<close>

definition Sprintf_T :: "goval \<Rightarrow> string" where
  "Sprintf_T v = (case TypeOf v of None \<Rightarrow> ''<nil>'' | Some t \<Rightarrow> Type_String t)"

text \<open>
  The store: \<open>cells s a\<close> holds the field values of the struct object at address
  \<open>a\<close>, one for each field of its type, in declaration order; addresses below
  \<open>next_addr s\<close> are allocated.
\<close>

record store =
  cells :: "nat \<Rightarrow> goval list"
  next_addr :: nat

text \<open>
  A \<^verbatim>\<open>reflect.Value\<close>: the zero Value, or a view of a value of type \<open>val_type\<close>;
  \<open>val_ptr\<close> is the address a non-nil pointer holds, \<open>val_addr\<close> the address of
  the viewed object when the view is addressable.
\<close>

datatype Value =
    ZeroValue
  | Val (val_type: gotype) (val_ptr: "nat option") (val_addr: "nat option")

fun ValueOf :: "goval \<Rightarrow> Value" where
  "ValueOf VNil = ZeroValue"
| "ValueOf (VNamed t x) = Val t None None"
| "ValueOf (VStruct t vs) = Val t None None"
| "ValueOf (VPtr t a) = Val (PtrT t) (Some a) None"
| "ValueOf (VNilPtr t) = Val (PtrT t) None None"

fun Value_Kind :: "Value \<Rightarrow> Kind" where
  "Value_Kind ZeroValue = KInvalid"
| "Value_Kind (Val t p a) = Kind_of t"

text \<open>\<^verbatim>\<open>v.Elem()\<close> of a pointer: the zero Value for nil, else an addressable view of the pointee.\<close>

fun Value_Elem :: "Value \<Rightarrow> Value" where
  "Value_Elem (Val (PtrT t) (Some a) b) = Val t None (Some a)"
| "Value_Elem v = ZeroValue"

text \<open>\<^verbatim>\<open>v.Type()\<close> panics on the zero Value.\<close>

fun Value_Type :: "Value \<Rightarrow> gotype outcome" where
  "Value_Type ZeroValue = Panics ZeroValueType"
| "Value_Type (Val t p a) = Returns t"

text \<open>The fields of a struct view, in order (\<^verbatim>\<open>NumField\<close>, \<^verbatim>\<open>Type().Field(i)\<close>).\<close>

fun Value_fields :: "Value \<Rightarrow> sfield list" where
  "Value_fields ZeroValue = []"
| "Value_fields (Val t p a) = fields_of t"

text \<open>\<^verbatim>\<open>v.Field(i).CanSet()\<close>: the struct is addressable and the field exported.\<close>

definition Field_CanSet :: "Value \<Rightarrow> sfield \<Rightarrow> bool" where
  "Field_CanSet v f = (case v of ZeroValue \<Rightarrow> False
                       | Val t p a \<Rightarrow> a \<noteq> None \<and> IsExported (fld_Name f))"

text \<open>\<^verbatim>\<open>v.Field(i).Set(d)\<close> on a settable field writes field \<open>i\<close> of the object in the store.\<close>

definition Field_Set :: "Value \<Rightarrow> nat \<Rightarrow> goval \<Rightarrow> store \<Rightarrow> store" where
  "Field_Set v i d s =
     (case v of
        Val t p (Some a) \<Rightarrow> s\<lparr>cells := (cells s)(a := (cells s a)[i := d])\<rparr>
      | _ \<Rightarrow> s)"

section \<open>The reader/writer mutex, on one goroutine\<close>

text \<open>
  \<^verbatim>\<open>sync.RWMutex\<close> is not reentrant. The state is what the calling goroutine
  itself holds: nothing, the read lock \<open>n\<close> times (\<open>Readers n\<close>, \<open>n\<close> at least 1),
  or the write lock. With one goroutine, a \<^verbatim>\<open>Lock\<close> on a held mutex and an
  \<^verbatim>\<open>RLock\<close> on a write-locked mutex wait for a release that cannot come:
  \<open>None\<close>.
\<close>

datatype RWMutex = Unlocked | Readers nat | WriteLocked

fun Lock :: "RWMutex \<Rightarrow> RWMutex option" where
  "Lock Unlocked = Some WriteLocked"
| "Lock m = None"

fun Unlock :: "RWMutex \<Rightarrow> RWMutex" where
  "Unlock m = Unlocked"

fun RLock :: "RWMutex \<Rightarrow> RWMutex option" where
  "RLock Unlocked = Some (Readers 1)"
| "RLock (Readers n) = Some (Readers (Suc n))"
| "RLock WriteLocked = None"

fun RUnlock :: "RWMutex \<Rightarrow> RWMutex" where
  "RUnlock (Readers (Suc (Suc n))) = Readers (Suc n)"
| "RUnlock m = Unlocked"


section \<open>SimpleContainer (simple\_container.go)\<close>

record SimpleContainer =
  sc_beans :: "string \<rightharpoonup> goval"
  mu :: RWMutex

definition NewContainer :: SimpleContainer where
  "NewContainer = \<lparr>sc_beans = Map.empty, mu = Unlocked\<rparr>"

definition ProvideWithName ::
  "SimpleContainer \<Rightarrow> string \<Rightarrow> goval \<Rightarrow> (error option \<times> SimpleContainer) outcome" where
  "ProvideWithName c name bean =
     (case Lock (mu c) of
        None \<Rightarrow> Blocks
      | Some m \<Rightarrow>
          (let name = (if name = [] then Sprintf_T bean else name) in
           if sc_beans c name \<noteq> None
           then Returns (Some (AlreadyExists name), c\<lparr>mu := Unlock m\<rparr>)
           else Returns (None, c\<lparr>sc_beans := (sc_beans c)(name \<mapsto> bean), mu := Unlock m\<rparr>)))"

fun Provides ::
  "SimpleContainer \<Rightarrow> goval list \<Rightarrow> (error option \<times> SimpleContainer) outcome" where
  "Provides c [] = Returns (None, c)"
| "Provides c (bean # rest) =
     (case ProvideWithName c [] bean of
        Blocks \<Rightarrow> Blocks
      | Panics p \<Rightarrow> Panics p
      | Returns (Some err, c') \<Rightarrow> Returns (Some err, c')
      | Returns (None, c') \<Rightarrow> Provides c' rest)"

text \<open>The read operations release the read lock before they return and leave the container as it was.\<close>

definition SimpleContainer_Get :: "SimpleContainer \<Rightarrow> string \<Rightarrow> (goval \<times> bool) outcome" where
  "SimpleContainer_Get c name =
     (case RLock (mu c) of
        None \<Rightarrow> Blocks
      | Some m \<Rightarrow>
          (case sc_beans c name of
             None \<Rightarrow> Returns (VNil, False)
           | Some bean \<Rightarrow> Returns (bean, True)))"

fun GetByType_loop ::
  "(string \<rightharpoonup> goval) \<Rightarrow> gotype option \<Rightarrow> string list \<Rightarrow> (goval \<times> bool) outcome" where
  "GetByType_loop bs beanType [] = Returns (VNil, False)"
| "GetByType_loop bs beanType (k # ks) =
     (case bs k of
        None \<Rightarrow> GetByType_loop bs beanType ks
      | Some bean \<Rightarrow>
          if TypeOf bean = beanType then Returns (bean, True)
          else
            (case beanType of
               None \<Rightarrow> Panics NilDereference
             | Some bt \<Rightarrow>
                 if Kind_of bt = KInterface
                 then (case Implements (TypeOf bean) beanType of
                         Blocks \<Rightarrow> Blocks
                       | Panics p \<Rightarrow> Panics p
                       | Returns True \<Rightarrow> Returns (bean, True)
                       | Returns False \<Rightarrow> GetByType_loop bs beanType ks)
                 else GetByType_loop bs beanType ks))"

definition GetByType ::
  "string list \<Rightarrow> SimpleContainer \<Rightarrow> gotype option \<Rightarrow> (goval \<times> bool) outcome" where
  "GetByType order c beanType =
     (case RLock (mu c) of
        None \<Rightarrow> Blocks
      | Some m \<Rightarrow> GetByType_loop (sc_beans c) beanType order)"

definition SimpleContainer_Count :: "SimpleContainer \<Rightarrow> nat outcome" where
  "SimpleContainer_Count c =
     (case RLock (mu c) of None \<Rightarrow> Blocks | Some m \<Rightarrow> Returns (card (dom (sc_beans c))))"

definition SimpleContainer_HasBean :: "SimpleContainer \<Rightarrow> string \<Rightarrow> bool outcome" where
  "SimpleContainer_HasBean c name =
     (case RLock (mu c) of None \<Rightarrow> Blocks | Some m \<Rightarrow> Returns (sc_beans c name \<noteq> None))"

definition SimpleContainer_Clear :: "SimpleContainer \<Rightarrow> SimpleContainer outcome" where
  "SimpleContainer_Clear c =
     (case Lock (mu c) of
        None \<Rightarrow> Blocks
      | Some m \<Rightarrow> Returns (c\<lparr>sc_beans := Map.empty, mu := Unlock m\<rparr>))"

text \<open>
  The loop over the fields of \<^verbatim>\<open>injectDependencies\<close>: \<open>i\<close> is the index of the
  field \<open>f\<close>, \<open>order\<close> the order a type lookup ranges over the beans.
\<close>

fun SimpleContainer_injectFields ::
  "string list \<Rightarrow> SimpleContainer \<Rightarrow> Value \<Rightarrow> sfield list \<Rightarrow> nat \<Rightarrow> store \<Rightarrow> store outcome" where
  "SimpleContainer_injectFields order c targetValue [] i s = Returns s"
| "SimpleContainer_injectFields order c targetValue (f # fs) i s =
     (let injectTag = Tag_Get (fld_Tag f) ''inject'' in
      if injectTag = [] then SimpleContainer_injectFields order c targetValue fs (Suc i) s
      else if \<not> Field_CanSet targetValue f
      then SimpleContainer_injectFields order c targetValue fs (Suc i) s
      else
        (case (if injectTag = [] then GetByType order c (Some (fld_Type f))
               else SimpleContainer_Get c injectTag) of
           Blocks \<Rightarrow> Blocks
         | Panics p \<Rightarrow> Panics p
         | Returns (dependency, found) \<Rightarrow>
             (case (if \<not> found then SimpleContainer_Get c (Type_String (fld_Type f))
                    else Returns (dependency, found)) of
                Blocks \<Rightarrow> Blocks
              | Panics p \<Rightarrow> Panics p
              | Returns (dependency, found) \<Rightarrow>
                  if found
                  then (case Value_Type (ValueOf dependency) of
                          Blocks \<Rightarrow> Blocks
                        | Panics p \<Rightarrow> Panics p
                        | Returns dt \<Rightarrow>
                            if AssignableTo dt (fld_Type f)
                            then SimpleContainer_injectFields order c targetValue fs (Suc i)
                                   (Field_Set targetValue i dependency s)
                            else SimpleContainer_injectFields order c targetValue fs (Suc i) s)
                  else SimpleContainer_injectFields order c targetValue fs (Suc i) s)))"

definition SimpleContainer_injectDependencies ::
  "string list \<Rightarrow> SimpleContainer \<Rightarrow> goval \<Rightarrow> store \<Rightarrow> (error option \<times> store) outcome" where
  "SimpleContainer_injectDependencies order c target s =
     (let targetValue = ValueOf target;
          targetValue = (if Value_Kind targetValue = KPtr then Value_Elem targetValue
                         else targetValue)
      in if Value_Kind targetValue \<noteq> KStruct then Returns (None, s)
         else (case SimpleContainer_injectFields order c targetValue
                      (Value_fields targetValue) 0 s of
                 Blocks \<Rightarrow> Blocks
               | Panics p \<Rightarrow> Panics p
               | Returns s' \<Rightarrow> Returns (None, s')))"

fun SimpleContainer_Populate_loop ::
  "string list \<Rightarrow> SimpleContainer \<Rightarrow> string list \<Rightarrow> store \<Rightarrow> (error option \<times> store) outcome" where
  "SimpleContainer_Populate_loop order c [] s = Returns (None, s)"
| "SimpleContainer_Populate_loop order c (name # names) s =
     (case sc_beans c name of
        None \<Rightarrow> SimpleContainer_Populate_loop order c names s
      | Some bean \<Rightarrow>
          (case SimpleContainer_injectDependencies order c bean s of
             Blocks \<Rightarrow> Blocks
           | Panics p \<Rightarrow> Panics p
           | Returns (Some err, s') \<Rightarrow> Returns (Some (InjectFailed name err), s')
           | Returns (None, s') \<Rightarrow> SimpleContainer_Populate_loop order c names s'))"

text \<open>
  \<^verbatim>\<open>Populate\<close> takes the write lock, wires every bean with the lock held and
  releases it on return.
\<close>

definition SimpleContainer_Populate ::
  "string list \<Rightarrow> SimpleContainer \<Rightarrow> store
     \<Rightarrow> (error option \<times> SimpleContainer \<times> store) outcome" where
  "SimpleContainer_Populate order c s =
     (case Lock (mu c) of
        None \<Rightarrow> Blocks
      | Some m \<Rightarrow>
          (case SimpleContainer_Populate_loop order (c\<lparr>mu := m\<rparr>) order s of
             Blocks \<Rightarrow> Blocks
           | Panics p \<Rightarrow> Panics p
           | Returns (err, s') \<Rightarrow> Returns (err, c\<lparr>mu := Unlock m\<rparr>, s')))"

section \<open>DIContainer (container.go)\<close>

datatype Lifecycle = Singleton | Prototype | Session | Request

text \<open>
  A factory is user code: it is modelled as a function on the store that
  returns the instance it builds (it does not call the container).
\<close>

type_synonym factory = "store \<Rightarrow> goval \<times> store"

record Bean =
  Name :: string
  Value :: goval
  Type :: "gotype option"
  Lifecycle :: Lifecycle
  Factory :: "factory option"
  Tags :: "string \<rightharpoonup> string"

record DIContainer =
  beans :: "string \<rightharpoonup> Bean"
  services :: "gotype option \<rightharpoonup> goval"
  mutex :: RWMutex

definition New :: DIContainer where
  "New = \<lparr>beans = Map.empty, services = Map.empty, mutex = Unlocked\<rparr>"

definition Provide ::
  "DIContainer \<Rightarrow> string \<Rightarrow> goval \<Rightarrow> (error option \<times> DIContainer) outcome" where
  "Provide c name bean =
     (case Lock (mutex c) of
        None \<Rightarrow> Blocks
      | Some m \<Rightarrow>
          if beans c name \<noteq> None
          then Returns (Some (AlreadyExists name), c\<lparr>mutex := Unlock m\<rparr>)
          else
            (let beanType = TypeOf bean in
             Returns (None,
               c\<lparr>beans := (beans c)(name \<mapsto>
                      \<lparr>Name = name, Value = bean, Type = beanType, Lifecycle = Singleton,
                       Factory = None, Tags = Map.empty\<rparr>),
                 services := (services c)(beanType \<mapsto> bean),
                 mutex := Unlock m\<rparr>)))"

text \<open>\<^verbatim>\<open>Get\<close> may run a factory, so it takes the store and returns it.\<close>

definition DIContainer_Get ::
  "DIContainer \<Rightarrow> string \<Rightarrow> store \<Rightarrow> ((goval \<times> bool) \<times> store) outcome" where
  "DIContainer_Get c name s =
     (case RLock (mutex c) of
        None \<Rightarrow> Blocks
      | Some m \<Rightarrow>
          (case beans c name of
             None \<Rightarrow> Returns ((VNil, False), s)
           | Some bean \<Rightarrow>
               (case Lifecycle bean of
                  Singleton \<Rightarrow> Returns ((Value bean, True), s)
                | Prototype \<Rightarrow>
                    (case Factory bean of
                       Some f \<Rightarrow> Returns ((fst (f s), True), snd (f s))
                     | None \<Rightarrow> Returns ((Value bean, True), s))
                | _ \<Rightarrow> Returns ((Value bean, True), s))))"

definition Close :: "DIContainer \<Rightarrow> (error option \<times> DIContainer) outcome" where
  "Close c =
     (case Lock (mutex c) of
        None \<Rightarrow> Blocks
      | Some m \<Rightarrow>
          Returns (None, c\<lparr>beans := Map.empty, services := Map.empty, mutex := Unlock m\<rparr>))"

fun DIContainer_injectFields ::
  "DIContainer \<Rightarrow> Value \<Rightarrow> sfield list \<Rightarrow> nat \<Rightarrow> store \<Rightarrow> store outcome" where
  "DIContainer_injectFields c targetValue [] i s = Returns s"
| "DIContainer_injectFields c targetValue (f # fs) i s =
     (let injectTag = Tag_Get (fld_Tag f) ''inject'' in
      if injectTag = [] then DIContainer_injectFields c targetValue fs (Suc i) s
      else if \<not> Field_CanSet targetValue f
      then DIContainer_injectFields c targetValue fs (Suc i) s
      else
        (case DIContainer_Get c injectTag s of
           Blocks \<Rightarrow> Blocks
         | Panics p \<Rightarrow> Panics p
         | Returns ((dependency, exists), s') \<Rightarrow>
             if exists
             then (case Value_Type (ValueOf dependency) of
                     Blocks \<Rightarrow> Blocks
                   | Panics p \<Rightarrow> Panics p
                   | Returns dt \<Rightarrow>
                       if AssignableTo dt (fld_Type f)
                       then DIContainer_injectFields c targetValue fs (Suc i)
                              (Field_Set targetValue i dependency s')
                       else DIContainer_injectFields c targetValue fs (Suc i) s')
             else DIContainer_injectFields c targetValue fs (Suc i) s'))"

definition DIContainer_injectDependencies ::
  "DIContainer \<Rightarrow> goval \<Rightarrow> store \<Rightarrow> (error option \<times> store) outcome" where
  "DIContainer_injectDependencies c target s =
     (let targetValue = ValueOf target;
          targetValue = (if Value_Kind targetValue = KPtr then Value_Elem targetValue
                         else targetValue)
      in if Value_Kind targetValue \<noteq> KStruct then Returns (None, s)
         else (case DIContainer_injectFields c targetValue (Value_fields targetValue) 0 s of
                 Blocks \<Rightarrow> Blocks
               | Panics p \<Rightarrow> Panics p
               | Returns s' \<Rightarrow> Returns (None, s')))"

fun DIContainer_Populate_loop ::
  "DIContainer \<Rightarrow> string list \<Rightarrow> store \<Rightarrow> (error option \<times> store) outcome" where
  "DIContainer_Populate_loop c [] s = Returns (None, s)"
| "DIContainer_Populate_loop c (k # ks) s =
     (case beans c k of
        None \<Rightarrow> DIContainer_Populate_loop c ks s
      | Some bean \<Rightarrow>
          (case DIContainer_injectDependencies c (Value bean) s of
             Blocks \<Rightarrow> Blocks
           | Panics p \<Rightarrow> Panics p
           | Returns (Some err, s') \<Rightarrow> Returns (Some (InjectFailed (Name bean) err), s')
           | Returns (None, s') \<Rightarrow> DIContainer_Populate_loop c ks s'))"

definition DIContainer_Populate ::
  "string list \<Rightarrow> DIContainer \<Rightarrow> store \<Rightarrow> (error option \<times> DIContainer \<times> store) outcome" where
  "DIContainer_Populate order c s =
     (case Lock (mutex c) of
        None \<Rightarrow> Blocks
      | Some m \<Rightarrow>
          (case DIContainer_Populate_loop (c\<lparr>mutex := m\<rparr>) order s of
             Blocks \<Rightarrow> Blocks
           | Panics p \<Rightarrow> Panics p
           | Returns (err, s') \<Rightarrow> Returns (err, c\<lparr>mutex := Unlock m\<rparr>, s')))"

definition RegisterWithLifecycle ::
  "DIContainer \<Rightarrow> string \<Rightarrow> goval \<Rightarrow> Lifecycle \<Rightarrow> (error option \<times> DIContainer) outcome" where
  "RegisterWithLifecycle c name bean lifecycle =
     (case Lock (mutex c) of
        None \<Rightarrow> Blocks
      | Some m \<Rightarrow>
          if beans c name \<noteq> None
          then Returns (Some (AlreadyExists name), c\<lparr>mutex := Unlock m\<rparr>)
          else
            Returns (None,
              c\<lparr>beans := (beans c)(name \<mapsto>
                     \<lparr>Name = name, Value = bean, Type = TypeOf bean, Lifecycle = lifecycle,
                      Factory = None, Tags = Map.empty\<rparr>),
                mutex := Unlock m\<rparr>))"

text \<open>
  \<^verbatim>\<open>RegisterFactory\<close> calls the factory once for the first instance; calling a
  nil func panics.
\<close>

definition RegisterFactory ::
  "DIContainer \<Rightarrow> string \<Rightarrow> factory option \<Rightarrow> Lifecycle \<Rightarrow> store
     \<Rightarrow> (error option \<times> DIContainer \<times> store) outcome" where
  "RegisterFactory c name factory lifecycle s =
     (case Lock (mutex c) of
        None \<Rightarrow> Blocks
      | Some m \<Rightarrow>
          if beans c name \<noteq> None
          then Returns (Some (AlreadyExists name), c\<lparr>mutex := Unlock m\<rparr>, s)
          else
            (case factory of
               None \<Rightarrow> Panics NilFuncCall
             | Some f \<Rightarrow>
                 (let instance = fst (f s); s' = snd (f s) in
                  Returns (None,
                    c\<lparr>beans := (beans c)(name \<mapsto>
                           \<lparr>Name = name, Value = instance, Type = TypeOf instance,
                            Lifecycle = lifecycle, Factory = factory, Tags = Map.empty\<rparr>),
                      mutex := Unlock m\<rparr>, s'))))"



definition DIContainer_HasBean :: "DIContainer \<Rightarrow> string \<Rightarrow> bool outcome" where
  "DIContainer_HasBean c name =
     (case RLock (mutex c) of None \<Rightarrow> Blocks | Some m \<Rightarrow> Returns (beans c name \<noteq> None))"

definition DIContainer_Count :: "DIContainer \<Rightarrow> nat outcome" where
  "DIContainer_Count c =
     (case RLock (mutex c) of None \<Rightarrow> Blocks | Some m \<Rightarrow> Returns (card (dom (beans c))))"

section \<open>Sequences of calls\<close>

text \<open>
  A client's later calls on a container, run one after the other; a call that
  panics or blocks ends the run.
\<close>

datatype DI_call =
    Call_Provide string goval
  | Call_RegisterWithLifecycle string goval Lifecycle
  | Call_RegisterFactory string "factory option" Lifecycle
  | Call_Get string
  | Call_Populate "string list"

fun DI_step :: "DI_call \<Rightarrow> DIContainer \<Rightarrow> store \<Rightarrow> (DIContainer \<times> store) outcome" where
  "DI_step (Call_Provide n v) c s =
     (case Provide c n v of
        Returns (e, c') \<Rightarrow> Returns (c', s) | Panics p \<Rightarrow> Panics p | Blocks \<Rightarrow> Blocks)"
| "DI_step (Call_RegisterWithLifecycle n v l) c s =
     (case RegisterWithLifecycle c n v l of
        Returns (e, c') \<Rightarrow> Returns (c', s) | Panics p \<Rightarrow> Panics p | Blocks \<Rightarrow> Blocks)"
| "DI_step (Call_RegisterFactory n f l) c s =
     (case RegisterFactory c n f l s of
        Returns (e, c', s') \<Rightarrow> Returns (c', s') | Panics p \<Rightarrow> Panics p | Blocks \<Rightarrow> Blocks)"
| "DI_step (Call_Get n) c s =
     (case DIContainer_Get c n s of
        Returns (r, s') \<Rightarrow> Returns (c, s') | Panics p \<Rightarrow> Panics p | Blocks \<Rightarrow> Blocks)"
| "DI_step (Call_Populate order) c s =
     (case DIContainer_Populate order c s of
        Returns (e, c', s') \<Rightarrow> Returns (c', s') | Panics p \<Rightarrow> Panics p | Blocks \<Rightarrow> Blocks)"

fun DI_run :: "DI_call list \<Rightarrow> DIContainer \<Rightarrow> store \<Rightarrow> (DIContainer \<times> store) outcome" where
  "DI_run [] c s = Returns (c, s)"
| "DI_run (x # xs) c s =
     (case DI_step x c s of
        Returns (c', s') \<Rightarrow> DI_run xs c' s' | Panics p \<Rightarrow> Panics p | Blocks \<Rightarrow> Blocks)"

datatype SC_call =
    Call_ProvideWithName string goval
  | Call_SC_Populate "string list"

fun SC_step :: "SC_call \<Rightarrow> SimpleContainer \<Rightarrow> store \<Rightarrow> (SimpleContainer \<times> store) outcome" where
  "SC_step (Call_ProvideWithName n v) c s =
     (case ProvideWithName c n v of
        Returns (e, c') \<Rightarrow> Returns (c', s) | Panics p \<Rightarrow> Panics p | Blocks \<Rightarrow> Blocks)"
| "SC_step (Call_SC_Populate order) c s =
     (case SimpleContainer_Populate order c s of
        Returns (e, c', s') \<Rightarrow> Returns (c', s') | Panics p \<Rightarrow> Panics p | Blocks \<Rightarrow> Blocks)"

fun SC_run :: "SC_call list \<Rightarrow> SimpleContainer \<Rightarrow> store \<Rightarrow> (SimpleContainer \<times> store) outcome" where
  "SC_run [] c s = Returns (c, s)"
| "SC_run (x # xs) c s =
     (case SC_step x c s of
        Returns (c', s') \<Rightarrow> SC_run xs c' s' | Panics p \<Rightarrow> Panics p | Blocks \<Rightarrow> Blocks)"

section \<open>Predicates used to state the properties\<close>


text \<open>A field the wiring pass goes on to resolve: a non-empty inject tag on an exported field.\<close>

definition wants_injection :: "sfield \<Rightarrow> bool" where
  "wants_injection f = (Tag_Get (fld_Tag f) ''inject'' \<noteq> [] \<and> IsExported (fld_Name f))"

fun wired_bean :: "goval \<Rightarrow> bool" where
  "wired_bean (VPtr t a) = list_ex wants_injection (fields_of t)"
| "wired_bean v = False"

fun is_struct_pointer :: "goval \<Rightarrow> bool" where
  "is_struct_pointer (VPtr t a) = (Kind_of t = KStruct)"
| "is_struct_pointer v = False"

text \<open>
  \<^verbatim>\<open>func() interface{} { return &T{...} }\<close>: a factory that allocates a new
  object on each call, and what every such factory does.
\<close>

definition new_object :: "gotype \<Rightarrow> goval list \<Rightarrow> factory" where
  "new_object t init s =
     (VPtr t (next_addr s),
      s\<lparr>cells := (cells s)(next_addr s := init), next_addr := Suc (next_addr s)\<rparr>)"

definition allocates :: "factory \<Rightarrow> bool" where
  "allocates f =
     (\<forall>s. (\<exists>t. fst (f s) = VPtr t (next_addr s)) \<and> next_addr s < next_addr (snd (f s)))"

section \<open>Example types and registries\<close>

definition int_T :: gotype where "int_T = NamedT ''int'' []"

definition string_T :: gotype where "string_T = NamedT ''string'' []"

definition Config_T :: gotype where
  "Config_T = StructT ''main.Config'' [SField ''Port'' int_T []] [] []"

definition Service_T :: gotype where
  "Service_T = StructT ''main.Service''
     [SField ''Cfg'' (PtrT Config_T) [(''inject'', ''config'')]] [] []"




text \<open>The types of \<^verbatim>\<open>pkg/domain/service\<close> and \<^verbatim>\<open>pkg/api/application.go\<close>.\<close>

definition DatastoreInterface_I :: gotype where
  "DatastoreInterface_I = InterfaceT ''datastore.DatastoreInterface'' [''Migrate() error'']"

definition Memory_T :: gotype where
  "Memory_T = StructT ''memory.Memory'' [] [] [''Migrate() error'']"

definition ApplicationServiceInterface_I :: gotype where
  "ApplicationServiceInterface_I = InterfaceT ''service.ApplicationServiceInterface''
     [''CreateApplication(context.Context, *model.Application) (*model.Application, error)'']"

definition applicationService_T :: gotype where
  "applicationService_T = StructT ''service.applicationService''
     [SField ''Store'' DatastoreInterface_I [(''inject'', ''datastore'')]]
     [] [''CreateApplication(context.Context, *model.Application) (*model.Application, error)'']"

definition ApplicationService_T :: gotype where
  "ApplicationService_T = StructT ''service.ApplicationService''
     [SField ''datastore'' DatastoreInterface_I []]
     [] [''CreateApplication(context.Context, *model.Application) (*model.Application, error)'']"

definition application_T :: gotype where
  "application_T = StructT ''api.application''
     [SField ''ApplicationService'' ApplicationServiceInterface_I [(''inject'', [])],
      SField ''handler'' (PtrT (StructT ''handler.ApplicationHandler'' [] [] [])) []]
     [] [''InitAPIServiceRoute(*gin.RouterGroup)'']"

definition api_store :: store where
  "api_store =
     \<lparr>cells = (\<lambda>a. [])(0 := [VNil, VNilPtr (StructT ''handler.ApplicationHandler'' [] [] [])],
                        1 := [VNil]),
      next_addr = 2\<rparr>"

definition api_container :: SimpleContainer where
  "api_container =
     \<lparr>sc_beans = [''*api.application'' \<mapsto> VPtr application_T 0,
                  ''*service.ApplicationService'' \<mapsto> VPtr ApplicationService_T 1],
      mu = Unlocked\<rparr>"

definition di_A :: DIContainer where
  "di_A =
     \<lparr>beans = [''A'' \<mapsto> \<lparr>Name = ''A'', Value = VNamed int_T 1, Type = Some int_T,
                         Lifecycle = Singleton, Factory = None, Tags = Map.empty\<rparr>],
      services = [Some int_T \<mapsto> VNamed int_T 1],
      mutex = Unlocked\<rparr>"

definition sc_A :: SimpleContainer where
  "sc_A = \<lparr>sc_beans = [''A'' \<mapsto> VNamed int_T 1], mu = Unlocked\<rparr>"

definition sc_int :: SimpleContainer where
  "sc_int = \<lparr>sc_beans = [''int'' \<mapsto> VNamed int_T 1], mu = Unlocked\<rparr>"

definition sc_int_string :: SimpleContainer where
  "sc_int_string =
     \<lparr>sc_beans = [''int'' \<mapsto> VNamed int_T 1, ''string'' \<mapsto> VNamed string_T 2],
      mu = Unlocked\<rparr>"



text \<open>
  The scenario of the specification: a bean "config" and a bean "service"
  whose field \<open>Cfg\<close> is marked to inject "config", both registered as pointers.
  Object 0 is the Config, object 1 the Service with \<open>Cfg\<close> still nil.
\<close>

definition wiring_store :: store where
  "wiring_store =
     \<lparr>cells = (\<lambda>a. [])(0 := [VNamed int_T 8080], 1 := [VNilPtr Config_T]), next_addr = 2\<rparr>"

definition sc_config_service :: SimpleContainer where
  "sc_config_service =
     \<lparr>sc_beans = [''config'' \<mapsto> VPtr Config_T 0, ''service'' \<mapsto> VPtr Service_T 1],
      mu = Unlocked\<rparr>"

definition di_config_service :: DIContainer where
  "di_config_service =
     \<lparr>beans = [''config'' \<mapsto> \<lparr>Name = ''config'', Value = VPtr Config_T 0,
                              Type = Some (PtrT Config_T), Lifecycle = Singleton,
                              Factory = None, Tags = Map.empty\<rparr>,
               ''service'' \<mapsto> \<lparr>Name = ''service'', Value = VPtr Service_T 1,
                               Type = Some (PtrT Service_T), Lifecycle = Singleton,
                               Factory = None, Tags = Map.empty\<rparr>],
      services = [Some (PtrT Config_T) \<mapsto> VPtr Config_T 0,
                  Some (PtrT Service_T) \<mapsto> VPtr Service_T 1],
      mutex = Unlocked\<rparr>"

text \<open>The same service alone: the bean its field names is not registered.\<close>

definition sc_service_only :: SimpleContainer where
  "sc_service_only = \<lparr>sc_beans = [''service'' \<mapsto> VPtr Service_T 1], mu = Unlocked\<rparr>"

definition di_service_only :: DIContainer where
  "di_service_only =
     \<lparr>beans = [''service'' \<mapsto> \<lparr>Name = ''service'', Value = VPtr Service_T 1,
                               Type = Some (PtrT Service_T), Lifecycle = Singleton,
                               Factory = None, Tags = Map.empty\<rparr>],
      services = [Some (PtrT Service_T) \<mapsto> VPtr Service_T 1],
      mutex = Unlocked\<rparr>"

text \<open>
  What \<^verbatim>\<open>pkg/server/server.go\<close> registers: the datastore under "datastore" and
  the service bean \<^verbatim>\<open>&applicationService{}\<close> under the name of its type.
\<close>

definition server_store :: store where
  "server_store = \<lparr>cells = (\<lambda>a. [])(0 := [], 1 := [VNil]), next_addr = 2\<rparr>"

definition sc_server :: SimpleContainer where
  "sc_server =
     \<lparr>sc_beans = [''datastore'' \<mapsto> VPtr Memory_T 0,
                  ''*service.applicationService'' \<mapsto> VPtr applicationService_T 1],
      mu = Unlocked\<rparr>"

definition di_server :: DIContainer where
  "di_server =
     \<lparr>beans = [''datastore'' \<mapsto> \<lparr>Name = ''datastore'', Value = VPtr Memory_T 0,
                                 Type = Some (PtrT Memory_T), Lifecycle = Singleton,
                                 Factory = None, Tags = Map.empty\<rparr>,
               ''*service.applicationService'' \<mapsto>
                  \<lparr>Name = ''*service.applicationService'', Value = VPtr applicationService_T 1,
                   Type = Some (PtrT applicationService_T), Lifecycle = Singleton,
                   Factory = None, Tags = Map.empty\<rparr>],
      services = [Some (PtrT Memory_T) \<mapsto> VPtr Memory_T 0,
                  Some (PtrT applicationService_T) \<mapsto> VPtr applicationService_T 1],
      mutex = Unlocked\<rparr>"

text \<open>Beans registered as struct values.\<close>

definition sc_by_value :: SimpleContainer where
  "sc_by_value =
     \<lparr>sc_beans = [''config'' \<mapsto> VStruct Config_T [VNamed int_T 8080],
                  ''service'' \<mapsto> VStruct Service_T [VNilPtr Config_T]],
      mu = Unlocked\<rparr>"

definition di_by_value :: DIContainer where
  "di_by_value =
     \<lparr>beans = [''service'' \<mapsto> \<lparr>Name = ''service'', Value = VStruct Service_T [VNilPtr Config_T],
                               Type = Some Service_T, Lifecycle = Singleton,
                               Factory = None, Tags = Map.empty\<rparr>],
      services = [Some Service_T \<mapsto> VStruct Service_T [VNilPtr Config_T]],
      mutex = Unlocked\<rparr>"

text \<open>
  A handler whose field names a bean "cfg"; a Config is registered under the
  name of its type, and in the second registry under "cfg" as well.
\<close>

definition Handler_T :: gotype where
  "Handler_T = StructT ''main.Handler''
     [SField ''Cfg'' (PtrT Config_T) [(''inject'', ''cfg'')]] [] []"

definition sc_by_type_name :: SimpleContainer where
  "sc_by_type_name =
     \<lparr>sc_beans = [''*main.Config'' \<mapsto> VPtr Config_T 0, ''handler'' \<mapsto> VPtr Handler_T 1],
      mu = Unlocked\<rparr>"

definition sc_by_both :: SimpleContainer where
  "sc_by_both =
     \<lparr>sc_beans = [''*main.Config'' \<mapsto> VPtr Config_T 0, ''cfg'' \<mapsto> VPtr Config_T 7,
                  ''handler'' \<mapsto> VPtr Handler_T 1],
      mu = Unlocked\<rparr>"

definition di_by_type_name :: DIContainer where
  "di_by_type_name =
     \<lparr>beans = [''*main.Config'' \<mapsto> \<lparr>Name = ''*main.Config'', Value = VPtr Config_T 0,
                                    Type = Some (PtrT Config_T), Lifecycle = Singleton,
                                    Factory = None, Tags = Map.empty\<rparr>,
               ''handler'' \<mapsto> \<lparr>Name = ''handler'', Value = VPtr Handler_T 1,
                               Type = Some (PtrT Handler_T), Lifecycle = Singleton,
                               Factory = None, Tags = Map.empty\<rparr>],
      services = [Some (PtrT Config_T) \<mapsto> VPtr Config_T 0,
                  Some (PtrT Handler_T) \<mapsto> VPtr Handler_T 1],
      mutex = Unlocked\<rparr>"

text \<open>A prototype bean with a factory that builds a new Config on each call.\<close>

definition config_factory :: factory where
  "config_factory = new_object Config_T [VNamed int_T 8080]"

definition di_prototype :: DIContainer where
  "di_prototype =
     \<lparr>beans = [''proto'' \<mapsto> \<lparr>Name = ''proto'', Value = VPtr Config_T 2,
                             Type = Some (PtrT Config_T), Lifecycle = Prototype,
                             Factory = Some config_factory, Tags = Map.empty\<rparr>],
      services = Map.empty,
      mutex = Unlocked\<rparr>"

definition di_prototype_plain :: DIContainer where
  "di_prototype_plain =
     \<lparr>beans = [''plain'' \<mapsto> \<lparr>Name = ''plain'', Value = VPtr Config_T 0,
                             Type = Some (PtrT Config_T), Lifecycle = Prototype,
                             Factory = None, Tags = Map.empty\<rparr>],
      services = Map.empty,
      mutex = Unlocked\<rparr>"





section \<open>The mutex\<close>

lemma Lock_Some: "Lock m = Some m' \<longleftrightarrow> m = Unlocked \<and> m' = WriteLocked"
  by (cases m) auto


text \<open>A deferred unlock puts the mutex back as the call found it.\<close>

lemma Unlock_Lock: "Lock m = Some m' \<Longrightarrow> Unlock m' = m"
  by (cases m) auto

lemma RUnlock_RLock: "m \<noteq> Readers 0 \<Longrightarrow> RLock m = Some m' \<Longrightarrow> RUnlock m' = m"
proof (cases m)
  case (Readers n)
  assume "m \<noteq> Readers 0" "RLock m = Some m'"
  with Readers show ?thesis by (cases n) auto
qed auto

section \<open>Registration and lookup by name\<close>

lemma Provide_success:
  "Provide c n v = Returns (None, c1) \<longleftrightarrow>
     mutex c = Unlocked \<and> beans c n = None \<and>
     c1 = c\<lparr>beans := (beans c)(n \<mapsto> \<lparr>Name = n, Value = v, Type = TypeOf v,
                       Lifecycle = Singleton, Factory = None, Tags = Map.empty\<rparr>),
            services := (services c)(TypeOf v \<mapsto> v), mutex := Unlocked\<rparr>"
  by (auto simp: Provide_def Lock_Some Let_def split: option.splits)

lemma ProvideWithName_success:
  "ProvideWithName c n v = Returns (None, c1) \<longleftrightarrow>
     mu c = Unlocked \<and> sc_beans c (if n = [] then Sprintf_T v else n) = None \<and>
     c1 = c\<lparr>sc_beans := (sc_beans c)((if n = [] then Sprintf_T v else n) \<mapsto> v),
            mu := Unlocked\<rparr>"
  by (auto simp: ProvideWithName_def Lock_Some Let_def split: option.splits)

lemma Provide_returns:
  "Provide c n v = Returns (e, c1) \<Longrightarrow>
     mutex c1 = Unlocked \<and> (\<forall>k b. beans c k = Some b \<longrightarrow> beans c1 k = Some b)"
  by (auto simp: Provide_def Lock_Some Let_def split: option.splits if_splits)

lemma RegisterWithLifecycle_returns:
  "RegisterWithLifecycle c n v l = Returns (e, c1) \<Longrightarrow>
     mutex c1 = Unlocked \<and> (\<forall>k b. beans c k = Some b \<longrightarrow> beans c1 k = Some b)"
  by (auto simp: RegisterWithLifecycle_def Lock_Some Let_def split: option.splits if_splits)

lemma RegisterFactory_returns:
  "RegisterFactory c n f l s = Returns (e, c1, s1) \<Longrightarrow>
     mutex c1 = Unlocked \<and> (\<forall>k b. beans c k = Some b \<longrightarrow> beans c1 k = Some b)"
  by (auto simp: RegisterFactory_def Lock_Some Let_def split: option.splits if_splits)

lemma ProvideWithName_returns:
  "ProvideWithName c n v = Returns (e, c1) \<Longrightarrow>
     mu c1 = Unlocked \<and> (\<forall>k b. sc_beans c k = Some b \<longrightarrow> sc_beans c1 k = Some b)"
  by (auto simp: ProvideWithName_def Lock_Some Let_def split: option.splits if_splits)

text \<open>
  C4, amended. After \<open>Provide c n v1\<close> has succeeded on a DIContainer, a second
  \<open>Provide\<close> under the same name \<open>n\<close> returns the already-exists error and a
  container with the same beans and the same count, where \<open>Get n\<close> still
  returns \<open>(v1, true)\<close>. The same holds for \<open>ProvideWithName\<close> of the
  SimpleContainer when \<open>n\<close> is not blank; with a blank name the bean is kept
  under the name of its type, and the second call is rejected when the
  second value has the same type name.
\<close>

theorem provide_duplicate_name_rejected:
  "(Provide c n v1 = Returns (None, c1) \<longrightarrow>
      (\<exists>c2. Provide c1 n v2 = Returns (Some (AlreadyExists n), c2) \<and>
            beans c2 = beans c1 \<and>
            DIContainer_Get c2 n s = Returns ((v1, True), s) \<and>
            DIContainer_Count c2 = DIContainer_Count c1)) \<and>
   (ProvideWithName d n v1 = Returns (None, d1) \<and>
    (n = [] \<longrightarrow> Sprintf_T v2 = Sprintf_T v1) \<longrightarrow>
      (\<exists>d2. ProvideWithName d1 n v2 =
              Returns (Some (AlreadyExists (if n = [] then Sprintf_T v1 else n)), d2) \<and>
            sc_beans d2 = sc_beans d1 \<and>
            SimpleContainer_Get d2 (if n = [] then Sprintf_T v1 else n) = Returns (v1, True) \<and>
            SimpleContainer_Count d2 = SimpleContainer_Count d1))"
proof (intro conjI impI)
  assume p: "Provide c n v1 = Returns (None, c1)"
  then have m: "mutex c1 = Unlocked"
    and b: "beans c1 n = Some \<lparr>Name = n, Value = v1, Type = TypeOf v1,
              Lifecycle = Singleton, Factory = None, Tags = Map.empty\<rparr>"
    by (auto simp: Provide_success)
  from m have same: "c1\<lparr>mutex := Unlocked\<rparr> = c1" by simp
  from m b same have "Provide c1 n v2 = Returns (Some (AlreadyExists n), c1)"
    by (simp add: Provide_def)
  moreover from m b have "DIContainer_Get c1 n s = Returns ((v1, True), s)"
    by (simp add: DIContainer_Get_def)
  ultimately show "\<exists>c2. Provide c1 n v2 = Returns (Some (AlreadyExists n), c2) \<and>
            beans c2 = beans c1 \<and> DIContainer_Get c2 n s = Returns ((v1, True), s) \<and>
            DIContainer_Count c2 = DIContainer_Count c1"
    by simp
next
  assume a: "ProvideWithName d n v1 = Returns (None, d1) \<and>
             (n = [] \<longrightarrow> Sprintf_T v2 = Sprintf_T v1)"
  let ?k = "if n = [] then Sprintf_T v1 else n"
  from a have m: "mu d1 = Unlocked" and b: "sc_beans d1 ?k = Some v1"
    by (auto simp: ProvideWithName_success)
  from a have k2: "(if n = [] then Sprintf_T v2 else n) = ?k" by auto
  from m have same: "d1\<lparr>mu := Unlocked\<rparr> = d1" by simp
  from m b k2 same have "ProvideWithName d1 n v2 = Returns (Some (AlreadyExists ?k), d1)"
    by (simp add: ProvideWithName_def Let_def)
  moreover from m b have "SimpleContainer_Get d1 ?k = Returns (v1, True)"
    by (simp add: SimpleContainer_Get_def)
  ultimately show "\<exists>d2. ProvideWithName d1 n v2 = Returns (Some (AlreadyExists ?k), d2) \<and>
            sc_beans d2 = sc_beans d1 \<and> SimpleContainer_Get d2 ?k = Returns (v1, True) \<and>
            SimpleContainer_Count d2 = SimpleContainer_Count d1"
    by simp
qed

theorem provide_duplicate_name_rejected_witness:
  "Provide New ''A'' (VNamed int_T 1) = Returns (None, di_A) \<and>
   (\<exists>c2. Provide di_A ''A'' (VNamed string_T 2) = Returns (Some (AlreadyExists ''A''), c2) \<and>
         beans c2 = beans di_A \<and>
         DIContainer_Get c2 ''A'' api_store = Returns ((VNamed int_T 1, True), api_store) \<and>
         DIContainer_Count c2 = DIContainer_Count di_A) \<and>
   ProvideWithName NewContainer ''A'' (VNamed int_T 1) = Returns (None, sc_A) \<and>
   (\<exists>d2. ProvideWithName sc_A ''A'' (VNamed string_T 2) =
           Returns (Some (AlreadyExists ''A''), d2) \<and>
         sc_beans d2 = sc_beans sc_A \<and>
         SimpleContainer_Get d2 ''A'' = Returns (VNamed int_T 1, True) \<and>
         SimpleContainer_Count d2 = SimpleContainer_Count sc_A)"
proof -
  have h1: "Provide New ''A'' (VNamed int_T 1) = Returns (None, di_A)"
    by (simp add: Provide_def New_def di_A_def Let_def int_T_def)
  have h2: "ProvideWithName NewContainer ''A'' (VNamed int_T 1) = Returns (None, sc_A)"
    by (simp add: ProvideWithName_def NewContainer_def sc_A_def Let_def)
  show ?thesis
    using h1 h2
      provide_duplicate_name_rejected [of New "''A''" "VNamed int_T 1" di_A
        "VNamed string_T 2" api_store NewContainer sc_A]
    by simp
qed

text \<open>
  C4 as stated fails on the SimpleContainer for the blank name: the second
  call registers a value of another type under another name and succeeds, the
  count goes from 1 to 2, and \<open>Get\<close> of the blank name finds nothing.
\<close>

theorem provide_blank_name_counterexample:
  "ProvideWithName NewContainer [] (VNamed int_T 1) = Returns (None, sc_int) \<and>
   ProvideWithName sc_int [] (VNamed string_T 2) = Returns (None, sc_int_string) \<and>
   SimpleContainer_Get sc_int [] = Returns (VNil, False) \<and>
   SimpleContainer_Count sc_int = Returns 1 \<and>
   SimpleContainer_Count sc_int_string = Returns 2"
  by (simp add: ProvideWithName_def NewContainer_def Sprintf_T_def int_T_def string_T_def
      SimpleContainer_Get_def SimpleContainer_Count_def Let_def sc_int_def sc_int_string_def)

section \<open>Lookup by type\<close>










section \<open>Populate under its own lock\<close>

lemma wants_injection_SField:
  "wants_injection (SField n t tg) = (Tag_Get tg ''inject'' \<noteq> [] \<and> IsExported n)"
  by (simp add: wants_injection_def)

lemma SimpleContainer_injectFields_locked:
  "mu c = WriteLocked \<Longrightarrow>
     SimpleContainer_injectFields order c (Val t p (Some a)) fs i s =
       (if list_ex wants_injection fs then Blocks else Returns s)"
  by (induction fs arbitrary: i)
     (simp_all add: Let_def Field_CanSet_def SimpleContainer_Get_def wants_injection_def)

lemma SimpleContainer_injectFields_unaddressable:
  "SimpleContainer_injectFields order c (Val t p None) fs i s = Returns s"
  by (induction fs arbitrary: i) (simp_all add: Let_def Field_CanSet_def)

lemma DIContainer_injectFields_locked:
  "mutex c = WriteLocked \<Longrightarrow>
     DIContainer_injectFields c (Val t p (Some a)) fs i s =
       (if list_ex wants_injection fs then Blocks else Returns s)"
  by (induction fs arbitrary: i)
     (simp_all add: Let_def Field_CanSet_def DIContainer_Get_def wants_injection_def)

lemma DIContainer_injectFields_unaddressable:
  "DIContainer_injectFields c (Val t p None) fs i s = Returns s"
  by (induction fs arbitrary: i) (simp_all add: Let_def Field_CanSet_def)

lemma fields_of_non_struct: "Kind_of t \<noteq> KStruct \<Longrightarrow> fields_of t = []"
  by (cases t) auto

lemma SimpleContainer_injectDependencies_locked:
  "mu c = WriteLocked \<Longrightarrow>
     SimpleContainer_injectDependencies order c v s =
       (if wired_bean v then Blocks else Returns (None, s))"
proof (cases v)
  case (VPtr t a)
  assume "mu c = WriteLocked"
  then show ?thesis using VPtr
    by (cases "Kind_of t = KStruct")
       (simp_all add: SimpleContainer_injectDependencies_def Let_def
          SimpleContainer_injectFields_locked fields_of_non_struct)
qed (simp_all add: SimpleContainer_injectDependencies_def Let_def
       SimpleContainer_injectFields_unaddressable)

lemma DIContainer_injectDependencies_locked:
  "mutex c = WriteLocked \<Longrightarrow>
     DIContainer_injectDependencies c v s =
       (if wired_bean v then Blocks else Returns (None, s))"
proof (cases v)
  case (VPtr t a)
  assume "mutex c = WriteLocked"
  then show ?thesis using VPtr
    by (cases "Kind_of t = KStruct")
       (simp_all add: DIContainer_injectDependencies_def Let_def
          DIContainer_injectFields_locked fields_of_non_struct)
qed (simp_all add: DIContainer_injectDependencies_def Let_def
       DIContainer_injectFields_unaddressable)

lemma SimpleContainer_Populate_loop_locked:
  "mu c = WriteLocked \<Longrightarrow>
     SimpleContainer_Populate_loop order c ks s =
       (if \<exists>k \<in> set ks. \<exists>v. sc_beans c k = Some v \<and> wired_bean v then Blocks
        else Returns (None, s))"
  by (induction ks)
     (auto simp: SimpleContainer_injectDependencies_locked split: option.splits)

lemma DIContainer_Populate_loop_locked:
  "mutex c = WriteLocked \<Longrightarrow>
     DIContainer_Populate_loop c ks s =
       (if \<exists>k \<in> set ks. \<exists>b. beans c k = Some b \<and> wired_bean (Value b) then Blocks
        else Returns (None, s))"
  by (induction ks)
     (auto simp: DIContainer_injectDependencies_locked split: option.splits)

text \<open>
  What \<open>Populate\<close> does, in full: it returns, with no error and nothing changed,
  when the mutex is free and no bean is a pointer to a struct with an exported
  field under a non-empty inject tag; otherwise it never returns.
\<close>

lemma SimpleContainer_Populate_eq:
  "SimpleContainer_Populate order c s =
     (if mu c = Unlocked \<and>
         \<not> (\<exists>k \<in> set order. \<exists>v. sc_beans c k = Some v \<and> wired_bean v)
      then Returns (None, c, s) else Blocks)"
proof (cases "mu c")
  case Unlocked
  then have "c\<lparr>mu := Unlocked\<rparr> = c" by simp
  with Unlocked show ?thesis
    by (simp add: SimpleContainer_Populate_def SimpleContainer_Populate_loop_locked)
qed (simp_all add: SimpleContainer_Populate_def)

lemma DIContainer_Populate_eq:
  "DIContainer_Populate order c s =
     (if mutex c = Unlocked \<and>
         \<not> (\<exists>k \<in> set order. \<exists>b. beans c k = Some b \<and> wired_bean (Value b))
      then Returns (None, c, s) else Blocks)"
proof (cases "mutex c")
  case Unlocked
  then have "c\<lparr>mutex := Unlocked\<rparr> = c" by simp
  with Unlocked show ?thesis
    by (simp add: DIContainer_Populate_def DIContainer_Populate_loop_locked)
qed (simp_all add: DIContainer_Populate_def)

text \<open>
  C8. \<open>Populate\<close> takes the write lock and, for the first settable field with
  a non-empty inject tag, calls the public \<open>Get\<close>, which asks for the read
  lock of the same mutex: a nested acquisition that blocks for ever. On the
  beans the server registers (a datastore, and a service whose exported field
  \<open>Store\<close> is tagged to inject "datastore") \<open>Populate\<close> of either container
  never returns, in either order of the range loop.
\<close>

theorem Populate_blocks_on_nested_lock:
  "Lock (mu sc_server) = Some WriteLocked \<and>
   SimpleContainer_Get (sc_server\<lparr>mu := WriteLocked\<rparr>) ''datastore'' = Blocks \<and>
   SimpleContainer_Populate [''datastore'', ''*service.applicationService''] sc_server server_store
     = Blocks \<and>
   SimpleContainer_Populate [''*service.applicationService'', ''datastore''] sc_server server_store
     = Blocks \<and>
   Lock (mutex di_server) = Some WriteLocked \<and>
   DIContainer_Get (di_server\<lparr>mutex := WriteLocked\<rparr>) ''datastore'' server_store = Blocks \<and>
   DIContainer_Populate [''datastore'', ''*service.applicationService''] di_server server_store
     = Blocks \<and>
   DIContainer_Populate [''*service.applicationService'', ''datastore''] di_server server_store
     = Blocks"
  by (simp add: SimpleContainer_Populate_eq DIContainer_Populate_eq sc_server_def di_server_def
      SimpleContainer_Get_def DIContainer_Get_def applicationService_T_def Memory_T_def
      wants_injection_SField Tag_Get_def IsExported_def)

text \<open>
  On the scenario of the specification (beans "config" and "service", the
  field \<open>Cfg\<close> of the service marked to inject "config") \<open>Populate\<close> of either
  container never returns, for the same reason.
\<close>

lemma Populate_blocks_on_named_dependency:
  "SimpleContainer_Populate [''config'', ''service''] sc_config_service wiring_store = Blocks \<and>
   SimpleContainer_Populate [''service'', ''config''] sc_config_service wiring_store = Blocks \<and>
   DIContainer_Populate [''config'', ''service''] di_config_service wiring_store = Blocks \<and>
   DIContainer_Populate [''service'', ''config''] di_config_service wiring_store = Blocks"
  by (simp add: SimpleContainer_Populate_eq DIContainer_Populate_eq sc_config_service_def
      di_config_service_def wiring_store_def Service_T_def Config_T_def int_T_def
      wants_injection_SField Tag_Get_def IsExported_def
      SimpleContainer_injectDependencies_def DIContainer_injectDependencies_def Let_def
      Field_CanSet_def Field_Set_def SimpleContainer_Get_def DIContainer_Get_def
      AssignableTo_def)

text \<open>
  C1. A field whose inject tag has the empty value is skipped before any
  lookup: \<open>Populate\<close> returns with the field \<open>ApplicationService\<close> of
  \<^verbatim>\<open>api.application\<close> still nil, although the lookup by type that the
  unreachable branch would make finds a registered bean that is assignable
  to the field. For a non-empty tag the wiring pass of the SimpleContainer,
  run with the mutex free, takes the bean of that name, and failing that the
  bean registered under the name of the field's type; the wiring pass of the
  DIContainer looks the name up and nothing else.
\<close>

theorem empty_marker_field_is_skipped:
  "SimpleContainer_Populate [''*api.application'', ''*service.ApplicationService'']
      api_container api_store = Returns (None, api_container, api_store) \<and>
   SimpleContainer_Populate [''*service.ApplicationService'', ''*api.application'']
      api_container api_store = Returns (None, api_container, api_store) \<and>
   SimpleContainer_injectDependencies [''*api.application'', ''*service.ApplicationService'']
      api_container (VPtr application_T 0) api_store = Returns (None, api_store) \<and>
   cells api_store 0 ! 0 = VNil \<and>
   GetByType [''*api.application'', ''*service.ApplicationService''] api_container
       (Some ApplicationServiceInterface_I) = Returns (VPtr ApplicationService_T 1, True) \<and>
   GetByType [''*service.ApplicationService'', ''*api.application''] api_container
       (Some ApplicationServiceInterface_I) = Returns (VPtr ApplicationService_T 1, True) \<and>
   AssignableTo (PtrT ApplicationService_T) ApplicationServiceInterface_I \<and>
   SimpleContainer_injectDependencies [''handler'', ''*main.Config''] sc_by_type_name
       (VPtr Handler_T 1) wiring_store =
     Returns (None, wiring_store\<lparr>cells := (cells wiring_store)(1 := [VPtr Config_T 0])\<rparr>) \<and>
   SimpleContainer_injectDependencies [''handler'', ''*main.Config'', ''cfg''] sc_by_both
       (VPtr Handler_T 1) wiring_store =
     Returns (None, wiring_store\<lparr>cells := (cells wiring_store)(1 := [VPtr Config_T 7])\<rparr>) \<and>
   DIContainer_injectDependencies di_by_type_name (VPtr Handler_T 1) wiring_store =
     Returns (None, wiring_store)"
  by (simp add: SimpleContainer_Populate_eq api_container_def api_store_def
      application_T_def ApplicationService_T_def ApplicationServiceInterface_I_def
      DatastoreInterface_I_def wants_injection_SField Tag_Get_def IsExported_def
      GetByType_def Implements_def AssignableTo_def
      SimpleContainer_injectDependencies_def DIContainer_injectDependencies_def Let_def
      Field_CanSet_def Field_Set_def SimpleContainer_Get_def DIContainer_Get_def
      sc_by_type_name_def sc_by_both_def di_by_type_name_def Handler_T_def Config_T_def
      int_T_def wiring_store_def)

text \<open>
  C3. A service whose field names a bean that is not registered: \<open>Populate\<close>
  of either container blocks in the lookup and never returns. The wiring pass
  alone, run with the mutex free, returns no error and leaves the store as it
  was.
\<close>

theorem Populate_blocks_on_missing_dependency:
  "SimpleContainer_Populate [''service''] sc_service_only wiring_store = Blocks \<and>
   DIContainer_Populate [''service''] di_service_only wiring_store = Blocks \<and>
   SimpleContainer_injectDependencies [''service''] sc_service_only
       (VPtr Service_T 1) wiring_store = Returns (None, wiring_store) \<and>
   DIContainer_injectDependencies di_service_only (VPtr Service_T 1) wiring_store =
     Returns (None, wiring_store)"
  by (simp add: SimpleContainer_Populate_eq DIContainer_Populate_eq sc_service_only_def
      di_service_only_def Service_T_def Config_T_def int_T_def
      wants_injection_SField Tag_Get_def IsExported_def
      SimpleContainer_injectDependencies_def DIContainer_injectDependencies_def Let_def
      Field_CanSet_def SimpleContainer_Get_def DIContainer_Get_def)

section \<open>Beans that are not pointers to structs\<close>

lemma wired_bean_is_struct_pointer: "wired_bean v \<Longrightarrow> is_struct_pointer v"
proof (cases v)
  case (VPtr t a)
  assume "wired_bean v"
  with VPtr show ?thesis by (cases t) auto
qed auto

lemma SimpleContainer_injectDependencies_not_pointer:
  "\<not> is_struct_pointer v \<Longrightarrow>
     SimpleContainer_injectDependencies order c v s = Returns (None, s)"
proof (cases v)
  case (VNamed t x)
  then show ?thesis
    by (cases t) (simp_all add: SimpleContainer_injectDependencies_def Let_def
        SimpleContainer_injectFields_unaddressable)
next
  case (VStruct t vs)
  then show ?thesis
    by (cases t) (simp_all add: SimpleContainer_injectDependencies_def Let_def
        SimpleContainer_injectFields_unaddressable)
qed (simp_all add: SimpleContainer_injectDependencies_def Let_def)

lemma DIContainer_injectDependencies_not_pointer:
  "\<not> is_struct_pointer v \<Longrightarrow> DIContainer_injectDependencies c v s = Returns (None, s)"
proof (cases v)
  case (VNamed t x)
  then show ?thesis
    by (cases t) (simp_all add: DIContainer_injectDependencies_def Let_def
        DIContainer_injectFields_unaddressable)
next
  case (VStruct t vs)
  then show ?thesis
    by (cases t) (simp_all add: DIContainer_injectDependencies_def Let_def
        DIContainer_injectFields_unaddressable)
qed (simp_all add: DIContainer_injectDependencies_def Let_def)

text \<open>
  C10. The wiring pass on a bean that is a struct value returns no error and
  leaves the store as it was, whatever the container holds and whether or not
  its mutex is held; so it does on every bean that is not a pointer to a
  struct. \<open>Populate\<close> on a registry of such beans returns no error with the
  container and the store unchanged, and whenever \<open>Populate\<close> returns it
  returns no error and the registered values are the ones registered before.
\<close>

theorem struct_value_bean_unchanged:
  "SimpleContainer_injectDependencies order c (VStruct t vs) s = Returns (None, s) \<and>
   DIContainer_injectDependencies d (VStruct t vs) s = Returns (None, s) \<and>
   (\<not> is_struct_pointer v \<longrightarrow>
      SimpleContainer_injectDependencies order c v s = Returns (None, s) \<and>
      DIContainer_injectDependencies d v s = Returns (None, s)) \<and>
   (mu c = Unlocked \<and> (\<forall>k \<in> set order. \<forall>v. sc_beans c k = Some v \<longrightarrow> \<not> is_struct_pointer v)
      \<longrightarrow> SimpleContainer_Populate order c s = Returns (None, c, s)) \<and>
   (mutex d = Unlocked \<and>
    (\<forall>k \<in> set order'. \<forall>b. beans d k = Some b \<longrightarrow> \<not> is_struct_pointer (Value b))
      \<longrightarrow> DIContainer_Populate order' d s = Returns (None, d, s)) \<and>
   (SimpleContainer_Populate order c s = Returns (e, c', s') \<longrightarrow>
      e = None \<and> sc_beans c' = sc_beans c) \<and>
   (DIContainer_Populate order' d s = Returns (e', d', s'') \<longrightarrow>
      e' = None \<and> beans d' = beans d)"
proof (intro conjI impI)
  show "SimpleContainer_injectDependencies order c (VStruct t vs) s = Returns (None, s)"
    by (simp add: SimpleContainer_injectDependencies_not_pointer)
  show "DIContainer_injectDependencies d (VStruct t vs) s = Returns (None, s)"
    by (simp add: DIContainer_injectDependencies_not_pointer)
next
  assume "\<not> is_struct_pointer v"
  then show "SimpleContainer_injectDependencies order c v s = Returns (None, s)"
    and "DIContainer_injectDependencies d v s = Returns (None, s)"
    by (simp_all add: SimpleContainer_injectDependencies_not_pointer
        DIContainer_injectDependencies_not_pointer)
next
  assume "mu c = Unlocked \<and>
          (\<forall>k \<in> set order. \<forall>v. sc_beans c k = Some v \<longrightarrow> \<not> is_struct_pointer v)"
  then show "SimpleContainer_Populate order c s = Returns (None, c, s)"
    using wired_bean_is_struct_pointer by (auto simp: SimpleContainer_Populate_eq)
next
  assume "mutex d = Unlocked \<and>
          (\<forall>k \<in> set order'. \<forall>b. beans d k = Some b \<longrightarrow> \<not> is_struct_pointer (Value b))"
  then show "DIContainer_Populate order' d s = Returns (None, d, s)"
    using wired_bean_is_struct_pointer by (auto simp: DIContainer_Populate_eq)
next
  assume "SimpleContainer_Populate order c s = Returns (e, c', s')"
  then show "e = None" and "sc_beans c' = sc_beans c"
    by (auto simp: SimpleContainer_Populate_eq split: if_splits)
next
  assume "DIContainer_Populate order' d s = Returns (e', d', s'')"
  then show "e' = None" and "beans d' = beans d"
    by (auto simp: DIContainer_Populate_eq split: if_splits)
qed

theorem struct_value_bean_unchanged_witness:
  "\<not> is_struct_pointer (VNamed int_T 3) \<and>
   mu sc_by_value = Unlocked \<and>
   \<not> is_struct_pointer (VStruct Config_T [VNamed int_T 8080]) \<and>
   \<not> is_struct_pointer (VStruct Service_T [VNilPtr Config_T]) \<and>
   mutex di_by_value = Unlocked \<and>
   SimpleContainer_injectDependencies [''service'', ''config''] sc_by_value
       (VStruct Service_T [VNilPtr Config_T]) wiring_store = Returns (None, wiring_store) \<and>
   DIContainer_injectDependencies di_by_value
       (VStruct Service_T [VNilPtr Config_T]) wiring_store = Returns (None, wiring_store) \<and>
   SimpleContainer_Populate [''service'', ''config''] sc_by_value wiring_store =
     Returns (None, sc_by_value, wiring_store) \<and>
   DIContainer_Populate [''service''] di_by_value wiring_store =
     Returns (None, di_by_value, wiring_store) \<and>
   sc_beans sc_by_value ''service'' = Some (VStruct Service_T [VNilPtr Config_T])"
proof -
  have h: "\<not> is_struct_pointer (VNamed int_T 3)" "mu sc_by_value = Unlocked"
    "\<forall>k \<in> set [''service'', ''config'']. \<forall>v. sc_beans sc_by_value k = Some v
       \<longrightarrow> \<not> is_struct_pointer v"
    "mutex di_by_value = Unlocked"
    "\<forall>k \<in> set [''service'']. \<forall>b. beans di_by_value k = Some b
       \<longrightarrow> \<not> is_struct_pointer (Value b)"
    "sc_beans sc_by_value ''service'' = Some (VStruct Service_T [VNilPtr Config_T])"
    by (auto simp: sc_by_value_def di_by_value_def)
  have h': "\<not> is_struct_pointer (VStruct Config_T [VNamed int_T 8080])"
    "\<not> is_struct_pointer (VStruct Service_T [VNilPtr Config_T])"
    by simp_all
  show ?thesis
    using h h' struct_value_bean_unchanged [of "[''service'', ''config'']" sc_by_value
        Service_T "[VNilPtr Config_T]" wiring_store di_by_value "VNamed int_T 3"
        "[''service'']" None sc_by_value wiring_store None di_by_value wiring_store]
    by simp
qed

section \<open>Lifecycles\<close>

lemma DI_step_preserves:
  "DI_step x c s = Returns (c', s') \<Longrightarrow> mutex c = Unlocked \<Longrightarrow> beans c n = Some b \<Longrightarrow>
     mutex c' = Unlocked \<and> beans c' n = Some b"
proof (cases x)
  case (Call_Provide m w)
  assume "DI_step x c s = Returns (c', s')" "beans c n = Some b"
  with Call_Provide show ?thesis
    by (auto split: outcome.splits dest: Provide_returns)
next
  case (Call_RegisterWithLifecycle m w l)
  assume "DI_step x c s = Returns (c', s')" "beans c n = Some b"
  with Call_RegisterWithLifecycle show ?thesis
    by (auto split: outcome.splits dest: RegisterWithLifecycle_returns)
next
  case (Call_RegisterFactory m f l)
  assume "DI_step x c s = Returns (c', s')" "beans c n = Some b"
  with Call_RegisterFactory show ?thesis
    by (auto split: outcome.splits dest: RegisterFactory_returns)
next
  case (Call_Get m)
  assume "DI_step x c s = Returns (c', s')" "mutex c = Unlocked" "beans c n = Some b"
  with Call_Get show ?thesis
    by (auto split: outcome.splits)
next
  case (Call_Populate order)
  assume "DI_step x c s = Returns (c', s')" "mutex c = Unlocked" "beans c n = Some b"
  with Call_Populate show ?thesis
    by (auto simp: DIContainer_Populate_eq split: outcome.splits if_splits)
qed

lemma DI_run_preserves:
  "DI_run xs c s = Returns (c', s') \<Longrightarrow> mutex c = Unlocked \<Longrightarrow> beans c n = Some b \<Longrightarrow>
     mutex c' = Unlocked \<and> beans c' n = Some b"
proof (induction xs arbitrary: c s)
  case Nil
  then show ?case by simp
next
  case (Cons x xs)
  from Cons.prems(1) obtain c1 s1 where st: "DI_step x c s = Returns (c1, s1)"
    and rn: "DI_run xs c1 s1 = Returns (c', s')"
    by (auto split: outcome.splits)
  from DI_step_preserves[OF st Cons.prems(2,3)] Cons.IH[OF rn] show ?case by simp
qed

lemma SC_step_preserves:
  "SC_step x c s = Returns (c', s') \<Longrightarrow> mu c = Unlocked \<Longrightarrow> sc_beans c n = Some v \<Longrightarrow>
     mu c' = Unlocked \<and> sc_beans c' n = Some v"
proof (cases x)
  case (Call_ProvideWithName m w)
  assume "SC_step x c s = Returns (c', s')" "sc_beans c n = Some v"
  with Call_ProvideWithName show ?thesis
    by (auto split: outcome.splits dest: ProvideWithName_returns)
next
  case (Call_SC_Populate order)
  assume "SC_step x c s = Returns (c', s')" "mu c = Unlocked" "sc_beans c n = Some v"
  with Call_SC_Populate show ?thesis
    by (auto simp: SimpleContainer_Populate_eq split: outcome.splits if_splits)
qed

lemma SC_run_preserves:
  "SC_run xs c s = Returns (c', s') \<Longrightarrow> mu c = Unlocked \<Longrightarrow> sc_beans c n = Some v \<Longrightarrow>
     mu c' = Unlocked \<and> sc_beans c' n = Some v"
proof (induction xs arbitrary: c s)
  case Nil
  then show ?case by simp
next
  case (Cons x xs)
  from Cons.prems(1) obtain c1 s1 where st: "SC_step x c s = Returns (c1, s1)"
    and rn: "SC_run xs c1 s1 = Returns (c', s')"
    by (auto split: outcome.splits)
  from SC_step_preserves[OF st Cons.prems(2,3)] Cons.IH[OF rn] show ?case by simp
qed

text \<open>
  C5. After \<open>Provide c n v\<close> has succeeded (the bean is a Singleton), \<open>Get n\<close>
  returns \<open>(v, true)\<close> and leaves the store as it is, at once and after any
  run of later calls that returns (registrations, lookups, \<open>Populate\<close>): every
  later \<open>Get n\<close> returns the one stored value. The same holds for
  \<open>ProvideWithName\<close> and \<open>Get\<close> of the SimpleContainer for a name that is not
  blank.
\<close>

theorem get_returns_provided_value:
  "(Provide c n v = Returns (None, c1) \<and> DI_run calls c1 s = Returns (c2, s2) \<longrightarrow>
      DIContainer_Get c2 n s2 = Returns ((v, True), s2)) \<and>
   (n \<noteq> [] \<and> ProvideWithName d n v = Returns (None, d1) \<and>
    SC_run calls' d1 s = Returns (d2, s2') \<longrightarrow>
      SimpleContainer_Get d2 n = Returns (v, True))"
proof (intro conjI impI)
  let ?b = "\<lparr>Name = n, Value = v, Type = TypeOf v, Lifecycle = Singleton,
             Factory = None, Tags = Map.empty\<rparr>"
  assume a: "Provide c n v = Returns (None, c1) \<and> DI_run calls c1 s = Returns (c2, s2)"
  then have "mutex c1 = Unlocked" "beans c1 n = Some ?b"
    by (auto simp: Provide_success)
  with a have "mutex c2 = Unlocked \<and> beans c2 n = Some ?b"
    using DI_run_preserves by blast
  then show "DIContainer_Get c2 n s2 = Returns ((v, True), s2)"
    by (simp add: DIContainer_Get_def)
next
  assume a: "n \<noteq> [] \<and> ProvideWithName d n v = Returns (None, d1) \<and>
             SC_run calls' d1 s = Returns (d2, s2')"
  then have "mu d1 = Unlocked" "sc_beans d1 n = Some v"
    by (auto simp: ProvideWithName_success)
  with a have "mu d2 = Unlocked \<and> sc_beans d2 n = Some v"
    using SC_run_preserves by blast
  then show "SimpleContainer_Get d2 n = Returns (v, True)"
    by (simp add: SimpleContainer_Get_def)
qed

theorem get_returns_provided_value_witness:
  "Provide New ''A'' (VNamed int_T 1) = Returns (None, di_A) \<and>
   DI_run [Call_Get ''A'', Call_Provide ''A'' (VNamed string_T 2), Call_Get ''A'']
       di_A api_store = Returns (di_A, api_store) \<and>
   DIContainer_Get di_A ''A'' api_store = Returns ((VNamed int_T 1, True), api_store) \<and>
   ''A'' \<noteq> [] \<and>
   ProvideWithName NewContainer ''A'' (VNamed int_T 1) = Returns (None, sc_A) \<and>
   SC_run [Call_ProvideWithName [] (VNamed int_T 1)] sc_A api_store
     = Returns (sc_A\<lparr>sc_beans := (sc_beans sc_A)(''int'' \<mapsto> VNamed int_T 1)\<rparr>, api_store) \<and>
   SimpleContainer_Get (sc_A\<lparr>sc_beans := (sc_beans sc_A)(''int'' \<mapsto> VNamed int_T 1)\<rparr>) ''A''
     = Returns (VNamed int_T 1, True)"
proof -
  have h: "Provide New ''A'' (VNamed int_T 1) = Returns (None, di_A)"
    "DI_run [Call_Get ''A'', Call_Provide ''A'' (VNamed string_T 2), Call_Get ''A'']
       di_A api_store = Returns (di_A, api_store)"
    "ProvideWithName NewContainer ''A'' (VNamed int_T 1) = Returns (None, sc_A)"
    "SC_run [Call_ProvideWithName [] (VNamed int_T 1)] sc_A api_store
     = Returns (sc_A\<lparr>sc_beans := (sc_beans sc_A)(''int'' \<mapsto> VNamed int_T 1)\<rparr>, api_store)"
    by (simp_all add: Provide_def New_def di_A_def Let_def int_T_def DIContainer_Get_def
        ProvideWithName_def NewContainer_def sc_A_def Sprintf_T_def)
  show ?thesis
    using h get_returns_provided_value [of New "''A''" "VNamed int_T 1" di_A
        "[Call_Get ''A'', Call_Provide ''A'' (VNamed string_T 2), Call_Get ''A'']"
        api_store di_A api_store NewContainer sc_A
        "[Call_ProvideWithName [] (VNamed int_T 1)]"
        "sc_A\<lparr>sc_beans := (sc_beans sc_A)(''int'' \<mapsto> VNamed int_T 1)\<rparr>" api_store]
    by simp
qed

lemma allocates_new_object: "allocates (new_object t init)"
  by (simp add: allocates_def new_object_def)

text \<open>
  C6. For a bean registered by \<open>RegisterFactory\<close> with the Prototype lifecycle,
  every \<open>Get\<close> calls the factory on the current store and returns what it
  returns; when the factory allocates a new object on each call, two
  successive calls return two different pointers. For a bean registered with
  the Prototype lifecycle and no factory (\<open>RegisterWithLifecycle\<close>), \<open>Get\<close>
  returns the stored value and \<open>true\<close>, as for a Singleton, and neither
  panics nor reports an error.
\<close>

theorem prototype_get_calls_factory:
  "(RegisterFactory c n (Some f) Prototype s = Returns (None, c1, s1) \<longrightarrow>
      DIContainer_Get c1 n s' = Returns ((fst (f s'), True), snd (f s')) \<and>
      (allocates f \<longrightarrow>
         (\<exists>v1 sa v2 sb. DIContainer_Get c1 n s' = Returns ((v1, True), sa) \<and>
                        DIContainer_Get c1 n sa = Returns ((v2, True), sb) \<and> v1 \<noteq> v2))) \<and>
   (RegisterWithLifecycle d n' v Prototype = Returns (None, d1) \<longrightarrow>
      DIContainer_Get d1 n' s' = Returns ((v, True), s'))"
proof (intro conjI impI)
  assume r: "RegisterFactory c n (Some f) Prototype s = Returns (None, c1, s1)"
  then have g: "\<And>x. DIContainer_Get c1 n x = Returns ((fst (f x), True), snd (f x))"
    by (auto simp: RegisterFactory_def Lock_Some Let_def DIContainer_Get_def
        split: option.splits if_splits)
  from g show "DIContainer_Get c1 n s' = Returns ((fst (f s'), True), snd (f s'))" .
  assume al: "allocates f"
  then obtain t t' where "fst (f s') = VPtr t (next_addr s')"
    "fst (f (snd (f s'))) = VPtr t' (next_addr (snd (f s')))"
    "next_addr s' < next_addr (snd (f s'))"
    unfolding allocates_def by blast
  then have "fst (f s') \<noteq> fst (f (snd (f s')))" by simp
  with g show "\<exists>v1 sa v2 sb. DIContainer_Get c1 n s' = Returns ((v1, True), sa) \<and>
                 DIContainer_Get c1 n sa = Returns ((v2, True), sb) \<and> v1 \<noteq> v2"
    by blast
next
  assume "RegisterWithLifecycle d n' v Prototype = Returns (None, d1)"
  then show "DIContainer_Get d1 n' s' = Returns ((v, True), s')"
    by (auto simp: RegisterWithLifecycle_def Lock_Some Let_def DIContainer_Get_def
        split: option.splits if_splits)
qed

theorem prototype_get_calls_factory_witness:
  "RegisterFactory New ''proto'' (Some config_factory) Prototype wiring_store =
     Returns (None, di_prototype,
              wiring_store\<lparr>cells := (cells wiring_store)(2 := [VNamed int_T 8080]),
                            next_addr := 3\<rparr>) \<and>
   allocates config_factory \<and>
   DIContainer_Get di_prototype ''proto'' wiring_store =
     Returns ((VPtr Config_T 2, True),
              wiring_store\<lparr>cells := (cells wiring_store)(2 := [VNamed int_T 8080]),
                            next_addr := 3\<rparr>) \<and>
   DIContainer_Get di_prototype ''proto''
       (wiring_store\<lparr>cells := (cells wiring_store)(2 := [VNamed int_T 8080]),
                      next_addr := 3\<rparr>) =
     Returns ((VPtr Config_T 3, True),
              wiring_store\<lparr>cells := (cells wiring_store)(2 := [VNamed int_T 8080],
                                                          3 := [VNamed int_T 8080]),
                            next_addr := 4\<rparr>) \<and>
   RegisterWithLifecycle New ''plain'' (VPtr Config_T 0) Prototype =
     Returns (None, di_prototype_plain) \<and>
   DIContainer_Get di_prototype_plain ''plain'' wiring_store =
     Returns ((VPtr Config_T 0, True), wiring_store)"
proof -
  let ?s1 = "wiring_store\<lparr>cells := (cells wiring_store)(2 := [VNamed int_T 8080]),
                           next_addr := 3\<rparr>"
  have h1: "RegisterFactory New ''proto'' (Some config_factory) Prototype wiring_store =
              Returns (None, di_prototype, ?s1)"
    by (simp add: RegisterFactory_def New_def di_prototype_def Let_def
        config_factory_def new_object_def wiring_store_def)
  have al: "allocates config_factory"
    by (simp add: config_factory_def allocates_new_object)
  have h2: "RegisterWithLifecycle New ''plain'' (VPtr Config_T 0) Prototype =
              Returns (None, di_prototype_plain)"
    by (simp add: RegisterWithLifecycle_def New_def di_prototype_plain_def)
  have f1: "config_factory wiring_store = (VPtr Config_T 2, ?s1)"
    by (simp add: config_factory_def new_object_def wiring_store_def)
  have f2: "config_factory ?s1 =
      (VPtr Config_T 3,
       wiring_store\<lparr>cells := (cells wiring_store)(2 := [VNamed int_T 8080],
                                                   3 := [VNamed int_T 8080]),
                     next_addr := 4\<rparr>)"
    by (simp add: config_factory_def new_object_def wiring_store_def)
  show ?thesis
    using h1 al h2 f1 f2
      prototype_get_calls_factory [where c = New and n = "''proto''" and f = config_factory
        and s = wiring_store and ?c1.0 = di_prototype and ?s1.0 = ?s1 and s' = wiring_store
        and d = New and n' = "''plain''" and v = "VPtr Config_T 0"
        and ?d1.0 = di_prototype_plain]
      prototype_get_calls_factory [where c = New and n = "''proto''" and f = config_factory
        and s = wiring_store and ?c1.0 = di_prototype and ?s1.0 = ?s1 and s' = ?s1
        and d = New and n' = "''plain''" and v = "VPtr Config_T 0"
        and ?d1.0 = di_prototype_plain]
    by simp
qed

section \<open>The wiring pass on one bean\<close>















end
